theory Spec2Isabelle
  imports Main
begin

section \<open>The attach-disk command: values, errors and API messages\<close>

text \<open>
  The command lives in \<^verbatim>\<open>lib/surface/compute/instances/attach_disk.py\<close>. It declares
  its flags (\<^verbatim>\<open>_Args\<close>), and its \<^verbatim>\<open>Run\<close> method turns the parsed flags into one
  \<^verbatim>\<open>ComputeInstancesAttachDiskRequest\<close> that is passed to \<^verbatim>\<open>client.MakeRequests\<close>.
  Three classes (GA, BETA, ALPHA) share \<^verbatim>\<open>Run\<close> and differ in the flags they declare and
  in \<^verbatim>\<open>ParseDiskRef\<close>.
\<close>

text \<open>The Python values that flags take: \<^verbatim>\<open>None\<close>, a bool or a string.\<close>

datatype pyval = PyNone | PyBool bool | PyStr string

text \<open>Truthiness of a value, as \<^verbatim>\<open>and\<close> and \<^verbatim>\<open>if\<close> test it.\<close>

fun truthy :: "pyval \<Rightarrow> bool" where
  "truthy PyNone = False"
| "truthy (PyBool b) = b"
| "truthy (PyStr s) = (s \<noteq> [])"

text \<open>
  Exceptions are values. The first four are the error kinds of the specification, raised
  by the flag parser and by the collaborators; \<open>TransportError\<close> is what the API call may
  raise; \<open>AttributeError\<close> is what Python raises when \<^verbatim>\<open>args.x\<close> reads a flag that the
  parser never declared.
\<close>

datatype error =
    MissingRequiredOption
  | InvalidEnumValue
  | ResourceResolutionError
  | UnsupportedKeyType
  | TransportError
  | AttributeError

definition ebind :: "error + 'a \<Rightarrow> ('a \<Rightarrow> error + 'b) \<Rightarrow> error + 'b" where
  "ebind m f = (case m of Inl e \<Rightarrow> Inl e | Inr x \<Rightarrow> f x)"

datatype ReleaseTrack = GA | BETA | ALPHA

datatype ScopeEnum = ZONE | REGION

datatype ModeValueValuesEnum = READ_ONLY | READ_WRITE

datatype TypeValueValuesEnum = PERSISTENT | SCRATCH

text \<open>A customer-supplied encryption key is raw (AES) key material or an RSA-wrapped key.\<close>

datatype csek_key = RawKey string | RsaEncryptedKey string

fun is_rsa :: "csek_key \<Rightarrow> bool" where
  "is_rsa (RawKey k) = False"
| "is_rsa (RsaEncryptedKey k) = True"

text \<open>
  The key store maps disk URIs to keys. A resolved instance has a name, a project and a
  zone; a resolved disk reference has a self link.
\<close>

type_synonym CsekKeyStore = "(string \<times> csek_key) list"

record instance_ref =
  Name :: string
  project :: string
  zone :: string

record disk_ref =
  SelfLink :: string

text \<open>
  The API messages. A field that was never assigned is \<^verbatim>\<open>None\<close>: \<open>PyNone\<close> for the
  fields that receive a flag's value, \<open>None\<close> for the key.
\<close>

record AttachedDisk =
  deviceName :: pyval
  mode :: ModeValueValuesEnum
  source :: string
  type :: TypeValueValuesEnum
  diskEncryptionKey :: "csek_key option"
  boot :: pyval

record ComputeInstancesAttachDiskRequest =
  "instance" :: string
  req_project :: string
  attachedDisk :: AttachedDisk
  req_zone :: string
  forceAttach :: pyval

section \<open>Flag declarations\<close>

text \<open>
  One \<^verbatim>\<open>parser.add_argument\<close> call: the option string and the keyword arguments the
  command uses. \<open>add_argument\<close> gives the keywords their values when they are not passed.
\<close>

datatype action = Store | StoreTrue

record argument =
  name :: string
  required :: bool
  choices :: "string list option"
  default :: "pyval option"
  action :: action

definition add_argument :: "string \<Rightarrow> argument" where
  "add_argument n =
     \<lparr>name = n, required = False, choices = None, default = None, action = Store\<rparr>"

text \<open>
  The attribute under which the parser stores a flag's value, which is the name that
  \<^verbatim>\<open>Run\<close> reads: the option string without its leading dashes, the other dashes
  replaced by underscores (\<^verbatim>\<open>--force-attach\<close> is read as \<^verbatim>\<open>args.force_attach\<close>).
\<close>

definition dest :: "argument \<Rightarrow> string" where
  "dest a = map (\<lambda>c. if c = CHR ''-'' then CHR ''_'' else c)
                (dropWhile (\<lambda>c. c = CHR ''-'') (name a))"

definition MODE_OPTIONS :: "(string \<times> string) list" where
  "MODE_OPTIONS =
     [(''ro'', ''Read-only.''),
      (''rw'', ''Read-write. It is an error to attach a disk in read-write mode to more than one instance.'')]"

text \<open>
  Modelled from the spec: \<^verbatim>\<open>flags.INSTANCE_ARG\<close>, whose declaration is not in this file.
  The specification lists the target instance identifier and the zone as the positional
  or implicit inputs, resolved by the resource-resolution collaborator.
\<close>

definition INSTANCE_ARG :: "argument list" where
  "INSTANCE_ARG = [add_argument ''instance_name'', add_argument ''--zone'']"

text \<open>
  Modelled from the spec: \<^verbatim>\<open>flags.AddDiskScopeFlag\<close>, whose declaration is not in this
  file. The specification gives \<^verbatim>\<open>--disk-scope {zonal|regional}\<close>, optional.
\<close>

definition AddDiskScopeFlag :: "argument list" where
  "AddDiskScopeFlag =
     [(add_argument ''--disk-scope'')\<lparr>choices := Some [''zonal'', ''regional'']\<rparr>]"

text \<open>
  Modelled from the spec: \<^verbatim>\<open>csek_utils.AddCsekKeyArgs\<close>, whose declaration is not in this
  file. The specification gives optional encryption-key arguments whose schema the
  key-store collaborator owns.
\<close>

definition AddCsekKeyArgs :: "argument list" where
  "AddCsekKeyArgs = [add_argument ''--csek-key-file'']"

text \<open>\<^verbatim>\<open>_Args\<close>: the arguments added to the parser, in the order of the calls.\<close>

definition Args_all_tracks :: "bool \<Rightarrow> bool \<Rightarrow> bool \<Rightarrow> argument list" where
  "Args_all_tracks support_disk_scope support_force_attach support_boot =
     INSTANCE_ARG
     @ [add_argument ''--device-name'',
        (add_argument ''--disk'')\<lparr>required := True\<rparr>,
        (add_argument ''--mode'')\<lparr>choices := Some (map fst MODE_OPTIONS),
                                   default := Some (PyStr ''rw'')\<rparr>]
     @ (if support_disk_scope then AddDiskScopeFlag else [])
     @ (if support_force_attach
        then [(add_argument ''--force-attach'')\<lparr>default := Some (PyBool False),
                                                 action := StoreTrue\<rparr>]
        else [])
     @ (if support_boot
        then [(add_argument ''--boot'')\<lparr>action := StoreTrue\<rparr>]
        else [])
     @ AddCsekKeyArgs"

text \<open>
  \<^verbatim>\<open>Args\<close> of the three classes. The release track selects the class: \<^verbatim>\<open>AttachDisk\<close>
  is registered for GA, \<^verbatim>\<open>AttachDiskBeta\<close> for BETA and \<^verbatim>\<open>AttachDiskAlpha\<close> for ALPHA.
\<close>

fun Args :: "ReleaseTrack \<Rightarrow> argument list" where
  "Args GA = Args_all_tracks False False False"
| "Args BETA = Args_all_tracks True True False"
| "Args ALPHA = Args_all_tracks True True True"

section \<open>The option collector\<close>

text \<open>
  The caller's command line: the value typed after each option string. For a boolean
  flag only the presence counts.
\<close>

type_synonym raw_options = "string \<rightharpoonup> string"

type_synonym namespace = "string \<rightharpoonup> pyval"

text \<open>
  Modelled from the spec: the parser is not in this file. The value of a declared
  argument that passes validation: what the caller typed, else the declared default (the
  specification's \<^verbatim>\<open>--mode\<close> is optional with default \<^verbatim>\<open>rw\<close>), else \<open>False\<close> for a
  boolean flag and \<^verbatim>\<open>None\<close> for any other option.
\<close>

definition arg_value :: "argument \<Rightarrow> raw_options \<Rightarrow> pyval" where
  "arg_value a raw =
     (case raw (name a) of
        None \<Rightarrow>
          (case default a of
             Some v \<Rightarrow> v
           | None \<Rightarrow> (case action a of StoreTrue \<Rightarrow> PyBool False | Store \<Rightarrow> PyNone))
      | Some s \<Rightarrow> (case action a of StoreTrue \<Rightarrow> PyBool True | Store \<Rightarrow> PyStr s))"

text \<open>
  Modelled from the spec: the parser that reads the command line against the declared
  arguments is not in this file. The specification's option collector fails with
  \<open>MissingRequiredOption\<close> when a required option is absent and with \<open>InvalidEnumValue\<close>
  when a value is not one of the recognised literals, unless a default applies; values
  for options the track does not declare are dropped.
\<close>

definition parse_one :: "argument \<Rightarrow> raw_options \<Rightarrow> error + pyval" where
  "parse_one a raw =
     (if required a \<and> raw (name a) = None then Inl MissingRequiredOption
      else if action a = Store \<and>
              (case (raw (name a), choices a) of
                 (Some s, Some cs) \<Rightarrow> s \<notin> set cs
               | _ \<Rightarrow> False)
      then Inl InvalidEnumValue
      else Inr (arg_value a raw))"

text \<open>
  Modelled from the spec: the parser is not in this file. The collector validates the
  declared arguments in the order of their declaration, the first failure ends it, and
  each value is stored under the argument's attribute.
\<close>

fun parse_args :: "argument list \<Rightarrow> raw_options \<Rightarrow> error + namespace" where
  "parse_args [] raw = Inr Map.empty"
| "parse_args (a # as) raw =
     ebind (parse_one a raw) (\<lambda>v.
     ebind (parse_args as raw) (\<lambda>ns. Inr (ns(dest a \<mapsto> v))))"

text \<open>\<^verbatim>\<open>args.x\<close>: reading an attribute that no declared flag stores raises.\<close>

definition getattr :: "namespace \<Rightarrow> string \<Rightarrow> error + pyval" where
  "getattr args n = (case args n of None \<Rightarrow> Inl AttributeError | Some v \<Rightarrow> Inr v)"

section \<open>Collaborators\<close>

text \<open>
  The resource resolvers, the key store and the API client are other modules. The
  command receives them here as parameters, each returning a value or raising.
\<close>

record collaborators =
  ResolveAsResource :: "namespace \<Rightarrow> error + instance_ref"
  ParseDiskResource :: "pyval \<Rightarrow> string \<Rightarrow> string \<Rightarrow> ScopeEnum \<Rightarrow> error + disk_ref"
  FromArgs :: "namespace \<Rightarrow> bool \<Rightarrow> error + CsekKeyStore option"
  MaybeLookupKeyMessage :: "CsekKeyStore option \<Rightarrow> disk_ref \<Rightarrow> error + csek_key option"
  MakeRequests :: "ComputeInstancesAttachDiskRequest list \<Rightarrow> error + string list"

section \<open>The command\<close>

text \<open>\<^verbatim>\<open>AttachDisk.ParseDiskRef\<close>: the scope is always the zone.\<close>

definition AttachDisk_ParseDiskRef ::
  "collaborators \<Rightarrow> namespace \<Rightarrow> instance_ref \<Rightarrow> error + disk_ref" where
  "AttachDisk_ParseDiskRef c args iref =
     ebind (getattr args ''disk'') (\<lambda>args_disk.
     ParseDiskResource c args_disk (project iref) (zone iref) ZONE)"

text \<open>\<^verbatim>\<open>AttachDiskBeta.ParseDiskRef\<close>: the scope follows \<^verbatim>\<open>args.disk_scope\<close>.\<close>

definition AttachDiskBeta_ParseDiskRef ::
  "collaborators \<Rightarrow> namespace \<Rightarrow> instance_ref \<Rightarrow> error + disk_ref" where
  "AttachDiskBeta_ParseDiskRef c args iref =
     ebind (getattr args ''disk_scope'') (\<lambda>args_disk_scope.
     let scope = (if args_disk_scope = PyStr ''regional'' then REGION else ZONE) in
     ebind (getattr args ''disk'') (\<lambda>args_disk.
     ParseDiskResource c args_disk (project iref) (zone iref) scope))"

text \<open>
  \<^verbatim>\<open>self.ParseDiskRef\<close>: \<^verbatim>\<open>AttachDiskBeta\<close> overrides the method and \<^verbatim>\<open>AttachDiskAlpha\<close>
  inherits it from \<^verbatim>\<open>AttachDiskBeta\<close>.
\<close>

fun ParseDiskRef ::
  "ReleaseTrack \<Rightarrow> collaborators \<Rightarrow> namespace \<Rightarrow> instance_ref \<Rightarrow> error + disk_ref" where
  "ParseDiskRef GA = AttachDisk_ParseDiskRef"
| "ParseDiskRef BETA = AttachDiskBeta_ParseDiskRef"
| "ParseDiskRef ALPHA = AttachDiskBeta_ParseDiskRef"

text \<open>
  \<^verbatim>\<open>Run\<close>, inherited by all three classes. The result is what \<^verbatim>\<open>MakeRequests\<close> returns
  or the exception raised, together with the requests that were handed to
  \<^verbatim>\<open>MakeRequests\<close>: none when an exception is raised before the call.
\<close>

definition Run ::
  "ReleaseTrack \<Rightarrow> collaborators \<Rightarrow> namespace \<Rightarrow>
     (error + string list) \<times> ComputeInstancesAttachDiskRequest list" where
  "Run track c args =
     (case
        ebind (ResolveAsResource c args) (\<lambda>iref.
        ebind (ParseDiskRef track c args iref) (\<lambda>dref.
        ebind (getattr args ''mode'') (\<lambda>args_mode.
        let mode = (if args_mode = PyStr ''rw'' then READ_WRITE else READ_ONLY);
            allow_rsa_encrypted = (track \<in> set [ALPHA, BETA]) in
        ebind (FromArgs c args allow_rsa_encrypted) (\<lambda>csek_keys.
        ebind (MaybeLookupKeyMessage c csek_keys dref) (\<lambda>disk_key_or_none.
        ebind (getattr args ''device_name'') (\<lambda>args_device_name.
        let attached_disk =
              \<lparr>deviceName = args_device_name, mode = mode, source = SelfLink dref,
               type = PERSISTENT, diskEncryptionKey = disk_key_or_none, boot = PyNone\<rparr> in
        ebind (if track = ALPHA
               then ebind (getattr args ''boot'') (\<lambda>args_boot.
                      Inr (if truthy args_boot then attached_disk\<lparr>boot := args_boot\<rparr>
                           else attached_disk))
               else Inr attached_disk) (\<lambda>attached_disk.
        let request =
              \<lparr>instance = Name iref, req_project = project iref,
               attachedDisk = attached_disk, req_zone = zone iref, forceAttach = PyNone\<rparr> in
        if track \<in> set [ALPHA, BETA]
        then ebind (getattr args ''force_attach'') (\<lambda>args_force_attach.
               Inr (request\<lparr>forceAttach := args_force_attach\<rparr>))
        else Inr request)))))))
      of Inl e \<Rightarrow> (Inl e, [])
       | Inr request \<Rightarrow> (MakeRequests c [request], [request]))"

text \<open>
  Modelled from the spec: the framework that parses the command line and calls
  \<^verbatim>\<open>Run\<close> is not in this file. The specification's control flow is collector, resolver,
  gate, emit: the parser holds the arguments that the track's class declares, the
  command line is parsed, and a parsing error ends the invocation before \<^verbatim>\<open>Run\<close> is
  called.
\<close>

definition invoke ::
  "ReleaseTrack \<Rightarrow> collaborators \<Rightarrow> raw_options \<Rightarrow>
     (error + string list) \<times> ComputeInstancesAttachDiskRequest list" where
  "invoke track c raw =
     (case parse_args (Args track) raw of
        Inl e \<Rightarrow> (Inl e, [])
      | Inr args \<Rightarrow> Run track c args)"

section \<open>The key store, from the specification\<close>

text \<open>
  Modelled from the spec: \<^verbatim>\<open>csek_utils.CsekKeyStore.FromArgs\<close> is not in this file. The
  specification includes RSA-wrapped keys only if they are allowed and fails with
  \<open>UnsupportedKeyType\<close> if the caller supplies an RSA key when they are not. \<open>supplied\<close>
  is the key material that the caller's encryption-key arguments denote.
\<close>

definition csek_utils_FromArgs ::
  "CsekKeyStore option \<Rightarrow> namespace \<Rightarrow> bool \<Rightarrow> error + CsekKeyStore option" where
  "csek_utils_FromArgs supplied args allow_rsa_encrypted =
     (case supplied of
        None \<Rightarrow> Inr None
      | Some ks \<Rightarrow>
          if \<not> allow_rsa_encrypted \<and> list_ex is_rsa (map snd ks)
          then Inl UnsupportedKeyType
          else Inr (Some ks))"

text \<open>
  Modelled from the spec: \<^verbatim>\<open>csek_utils.MaybeLookupKeyMessage\<close> is not in this file. The
  specification looks the key material up by disk reference.
\<close>

definition csek_utils_MaybeLookupKeyMessage ::
  "CsekKeyStore option \<Rightarrow> disk_ref \<Rightarrow> error + csek_key option" where
  "csek_utils_MaybeLookupKeyMessage csek_keys_or_none resource =
     (case csek_keys_or_none of
        None \<Rightarrow> Inr None
      | Some ks \<Rightarrow> Inr (map_of ks (SelfLink resource)))"

section \<open>An example client and command line\<close>

text \<open>
  A client whose resolvers accept every name, whose key store holds the supplied keys
  and whose transport answers \<open>done\<close>.
\<close>

definition example_client :: "CsekKeyStore option \<Rightarrow> collaborators" where
  "example_client supplied =
     \<lparr>ResolveAsResource = (\<lambda>args.
        case args ''instance_name'' of
          Some (PyStr n) \<Rightarrow> Inr \<lparr>Name = n, project = ''my-project'', zone = ''us-central1-a''\<rparr>
        | _ \<Rightarrow> Inl ResourceResolutionError),
      ParseDiskResource = (\<lambda>d p z s.
        case d of
          PyStr n \<Rightarrow>
            Inr \<lparr>SelfLink = (case s of ZONE \<Rightarrow> ''zones/'' @ z @ ''/disks/'' @ n
                                      | REGION \<Rightarrow> ''regions/us-central1/disks/'' @ n)\<rparr>
        | _ \<Rightarrow> Inl ResourceResolutionError),
      FromArgs = csek_utils_FromArgs supplied,
      MaybeLookupKeyMessage = csek_utils_MaybeLookupKeyMessage,
      MakeRequests = (\<lambda>rs. Inr [''done''])\<rparr>"

text \<open>\<^verbatim>\<open>attach-disk example-instance --disk DISK --force-attach --boot\<close>\<close>

definition example_raw :: raw_options where
  "example_raw =
     [''instance_name'' \<mapsto> ''example-instance'', ''--disk'' \<mapsto> ''DISK'',
      ''--force-attach'' \<mapsto> [], ''--boot'' \<mapsto> []]"

text \<open>The request that the example emits on a track.\<close>

definition example_request :: "ReleaseTrack \<Rightarrow> ComputeInstancesAttachDiskRequest" where
  "example_request track =
     \<lparr>instance = ''example-instance'', req_project = ''my-project'',
      attachedDisk =
        \<lparr>deviceName = PyNone, mode = READ_WRITE,
         source = ''zones/us-central1-a/disks/DISK'', type = PERSISTENT,
         diskEncryptionKey = None,
         boot = (if track = ALPHA then PyBool True else PyNone)\<rparr>,
      req_zone = ''us-central1-a'',
      forceAttach = (if track = GA then PyNone else PyBool True)\<rparr>"

text \<open>The same command line with \<^verbatim>\<open>--disk-scope regional\<close>.\<close>

definition example_regional :: raw_options where
  "example_regional = example_raw(''--disk-scope'' \<mapsto> ''regional'')"

text \<open>The namespace that the collector returns for a command line it accepts.\<close>

definition parsed :: "ReleaseTrack \<Rightarrow> raw_options \<Rightarrow> namespace" where
  "parsed track raw =
     (case parse_args (Args track) raw of Inr args \<Rightarrow> args | Inl e \<Rightarrow> Map.empty)"

definition example_instance :: instance_ref where
  "example_instance =
     \<lparr>Name = ''example-instance'', project = ''my-project'', zone = ''us-central1-a''\<rparr>"

definition example_disk :: string where
  "example_disk = ''zones/us-central1-a/disks/DISK''"

text \<open>Key material for the example disk: an RSA-wrapped key, and raw keys for two disks.\<close>

definition example_rsa_store :: CsekKeyStore where
  "example_rsa_store = [(example_disk, RsaEncryptedKey ''wrapped-key'')]"

definition example_raw_store :: CsekKeyStore where
  "example_raw_store =
     [(''zones/us-central1-a/disks/OTHER'', RawKey ''other-key''), (example_disk, RawKey ''key'')]"

section \<open>Lemmas about the option collector\<close>

lemma ebind_Inr_iff: "ebind m f = Inr y \<longleftrightarrow> (\<exists>x. m = Inr x \<and> f x = Inr y)"
  by (cases m) (simp_all add: ebind_def)

lemma ebind_Inl_iff: "ebind m f = Inl e \<longleftrightarrow> m = Inl e \<or> (\<exists>x. m = Inr x \<and> f x = Inl e)"
  by (cases m) (simp_all add: ebind_def)

lemma parse_one_Inr: "parse_one a raw = Inr v \<Longrightarrow> v = arg_value a raw"
  by (simp add: parse_one_def split: if_splits)

lemma parse_one_Inl:
  "parse_one a raw = Inl e \<Longrightarrow> e = MissingRequiredOption \<or> e = InvalidEnumValue"
  by (auto simp add: parse_one_def split: if_splits)

text \<open>A namespace that the collector returns holds, for each declared argument, its value.\<close>

lemma parse_args_lookup:
  "parse_args as raw = Inr ns \<Longrightarrow> ns n = map_of (map (\<lambda>a. (dest a, arg_value a raw)) as) n"
proof (induction as arbitrary: ns)
  case Nil
  then show ?case by simp
next
  case (Cons a as)
  from Cons.prems obtain v ns' where v: "parse_one a raw = Inr v"
    and ns': "parse_args as raw = Inr ns'" and ns: "ns = ns'(dest a \<mapsto> v)"
    by (auto simp add: ebind_Inr_iff)
  from Cons.IH [OF ns'] parse_one_Inr [OF v] ns show ?case by simp
qed

lemma parse_args_Inl:
  "parse_args as raw = Inl e \<Longrightarrow> e = MissingRequiredOption \<or> e = InvalidEnumValue"
proof (induction as)
  case Nil
  then show ?case by simp
next
  case (Cons a as)
  then show ?case by (auto simp add: ebind_Inl_iff dest: parse_one_Inl)
qed

lemma parse_args_all:
  "parse_args as raw = Inr ns \<Longrightarrow> a \<in> set as \<Longrightarrow> parse_one a raw = Inr (arg_value a raw)"
proof (induction as arbitrary: ns)
  case Nil
  then show ?case by simp
next
  case (Cons b bs)
  then show ?case by (auto simp add: ebind_Inr_iff dest: parse_one_Inr)
qed

lemmas schema_defs =
  Args_all_tracks_def INSTANCE_ARG_def AddCsekKeyArgs_def AddDiskScopeFlag_def
  add_argument_def dest_def MODE_OPTIONS_def

lemma lookup_mode:
  assumes "parse_args (Args track) raw = Inr args"
  shows "args ''mode'' = Some (case raw ''--mode'' of None \<Rightarrow> PyStr ''rw'' | Some m \<Rightarrow> PyStr m)"
  using parse_args_lookup [OF assms, of "''mode''"]
  by (cases track) (simp_all add: schema_defs arg_value_def split: option.splits)

lemma lookup_force_attach:
  assumes "parse_args (Args track) raw = Inr args"
  shows "args ''force_attach'' =
           (if track = GA then None else Some (PyBool (raw ''--force-attach'' \<noteq> None)))"
  using parse_args_lookup [OF assms, of "''force_attach''"]
  by (cases track) (simp_all add: schema_defs arg_value_def split: option.splits)

lemma lookup_boot:
  assumes "parse_args (Args track) raw = Inr args"
  shows "args ''boot'' =
           (if track = ALPHA then Some (PyBool (raw ''--boot'' \<noteq> None)) else None)"
  using parse_args_lookup [OF assms, of "''boot''"]
  by (cases track) (simp_all add: schema_defs arg_value_def split: option.splits)

lemma lookup_disk_scope:
  assumes "parse_args (Args track) raw = Inr args"
  shows "args ''disk_scope'' =
           (if track = GA then None
            else Some (case raw ''--disk-scope'' of None \<Rightarrow> PyNone | Some m \<Rightarrow> PyStr m))"
  using parse_args_lookup [OF assms, of "''disk_scope''"]
  by (cases track) (simp_all add: schema_defs arg_value_def split: option.splits)

lemma lookup_device_name:
  assumes "parse_args (Args track) raw = Inr args"
  shows "args ''device_name'' =
           Some (case raw ''--device-name'' of None \<Rightarrow> PyNone | Some m \<Rightarrow> PyStr m)"
  using parse_args_lookup [OF assms, of "''device_name''"]
  by (cases track) (simp_all add: schema_defs arg_value_def split: option.splits)

lemma disk_in_Args: "(add_argument ''--disk'')\<lparr>required := True\<rparr> \<in> set (Args track)"
  by (cases track) (simp_all add: Args_all_tracks_def)

lemma mode_in_Args:
  "(add_argument ''--mode'')\<lparr>choices := Some (map fst MODE_OPTIONS),
                              default := Some (PyStr ''rw'')\<rparr> \<in> set (Args track)"
  by (cases track) (simp_all add: Args_all_tracks_def)

lemma lookup_disk:
  assumes "parse_args (Args track) raw = Inr args"
  shows "\<exists>d. raw ''--disk'' = Some d \<and> args ''disk'' = Some (PyStr d)"
  using parse_args_lookup [OF assms, of "''disk''"] parse_args_all [OF assms disk_in_Args]
  by (cases track)
    (auto simp add: schema_defs arg_value_def parse_one_def split: option.splits if_splits)

lemma mode_valid:
  assumes "parse_args (Args track) raw = Inr args" and "raw ''--mode'' = Some m"
  shows "m = ''ro'' \<or> m = ''rw''"
  using parse_args_all [OF assms(1) mode_in_Args] assms(2)
  by (auto simp add: schema_defs parse_one_def split: option.splits if_splits)

lemma parse_one_simple [simp]:
  "parse_one (add_argument n) raw = Inr (arg_value (add_argument n) raw)"
  by (simp add: parse_one_def add_argument_def split: option.splits)

lemma parse_one_store_true [simp]:
  "parse_one ((add_argument n)\<lparr>action := StoreTrue\<rparr>) raw =
     Inr (arg_value ((add_argument n)\<lparr>action := StoreTrue\<rparr>) raw)"
  "parse_one ((add_argument n)\<lparr>default := d, action := StoreTrue\<rparr>) raw =
     Inr (arg_value ((add_argument n)\<lparr>default := d, action := StoreTrue\<rparr>) raw)"
  by (simp_all add: parse_one_def add_argument_def)

lemma parse_one_disk:
  "parse_one ((add_argument ''--disk'')\<lparr>required := True\<rparr>) raw =
     (case raw ''--disk'' of None \<Rightarrow> Inl MissingRequiredOption | Some d \<Rightarrow> Inr (PyStr d))"
  by (simp add: parse_one_def arg_value_def add_argument_def split: option.splits)

lemma parse_one_mode:
  "parse_one ((add_argument ''--mode'')\<lparr>choices := Some (map fst MODE_OPTIONS),
                                   default := Some (PyStr ''rw'')\<rparr>) raw =
     (case raw ''--mode'' of
        None \<Rightarrow> Inr (PyStr ''rw'')
      | Some m \<Rightarrow> if m = ''ro'' \<or> m = ''rw'' then Inr (PyStr m) else Inl InvalidEnumValue)"
  by (simp add: parse_one_def arg_value_def add_argument_def MODE_OPTIONS_def split: option.splits)

lemma parse_one_disk_scope:
  "parse_one ((add_argument ''--disk-scope'')\<lparr>choices := Some [''zonal'', ''regional'']\<rparr>) raw =
     (case raw ''--disk-scope'' of
        None \<Rightarrow> Inr PyNone
      | Some m \<Rightarrow> if m = ''zonal'' \<or> m = ''regional'' then Inr (PyStr m) else Inl InvalidEnumValue)"
  by (simp add: parse_one_def arg_value_def add_argument_def split: option.splits)

lemmas parse_one_schema = parse_one_disk parse_one_mode parse_one_disk_scope

lemmas Args_unfold = Args_all_tracks_def INSTANCE_ARG_def AddCsekKeyArgs_def AddDiskScopeFlag_def

lemmas example_raws = example_raw_def example_regional_def

lemma example_parsed:
  "parse_args (Args track) example_raw = Inr (parsed track example_raw)"
  "parse_args (Args track) example_regional = Inr (parsed track example_regional)"
  by (cases track; simp add: parsed_def Args_unfold parse_one_schema ebind_def example_raws)+

lemma example_parsed_instance:
  "parsed track example_raw ''instance_name'' = Some (PyStr ''example-instance'')"
  "parsed track example_regional ''instance_name'' = Some (PyStr ''example-instance'')"
  using parse_args_lookup [OF example_parsed(1), of track "''instance_name''"]
    parse_args_lookup [OF example_parsed(2), of track "''instance_name''"]
  by (cases track; simp add: schema_defs arg_value_def example_raws)+

section \<open>Lemmas about the request that \<open>Run\<close> hands over\<close>

lemma invoke_Run:
  "req \<in> set (snd (invoke track c raw)) \<Longrightarrow>
   \<exists>args. parse_args (Args track) raw = Inr args \<and> req \<in> set (snd (Run track c args))"
  by (simp add: invoke_def split: sum.splits)

lemma Run_forceAttach:
  assumes "req \<in> set (snd (Run track c args))"
  shows "forceAttach req = (if track = GA then PyNone else the (args ''force_attach''))"
  using assms
  by (cases track;
      auto simp add: Run_def ebind_def getattr_def Let_def split: sum.splits option.splits)

lemma Run_boot:
  assumes "req \<in> set (snd (Run track c args))"
  shows "boot (attachedDisk req) =
          (if track = ALPHA \<and> truthy (the (args ''boot'')) then the (args ''boot'') else PyNone)"
  using assms
  by (cases track;
      auto simp add: Run_def ebind_def getattr_def Let_def
           split: sum.splits option.splits if_splits)

lemma Run_mode:
  assumes "req \<in> set (snd (Run track c args))"
  shows "mode (attachedDisk req) =
          (if the (args ''mode'') = PyStr ''rw'' then READ_WRITE else READ_ONLY)"
  using assms
  by (cases track;
      auto simp add: Run_def ebind_def getattr_def Let_def
           split: sum.splits option.splits if_splits)

lemma Run_disk:
  assumes "req \<in> set (snd (Run track c args))"
  shows "\<exists>iref dref keys.
           ResolveAsResource c args = Inr iref \<and> ParseDiskRef track c args iref = Inr dref \<and>
           FromArgs c args (track \<noteq> GA) = Inr keys \<and>
           MaybeLookupKeyMessage c keys dref = Inr (diskEncryptionKey (attachedDisk req)) \<and>
           source (attachedDisk req) = SelfLink dref"
  using assms
  by (cases track;
      auto simp add: Run_def ebind_def getattr_def Let_def
           split: sum.splits option.splits if_splits)

lemmas example_defs =
  invoke_def Run_def ebind_def getattr_def parse_one_def arg_value_def schema_defs
  example_client_def example_raw_def example_request_def
  AttachDisk_ParseDiskRef_def AttachDiskBeta_ParseDiskRef_def
  csek_utils_FromArgs_def csek_utils_MaybeLookupKeyMessage_def

lemma example_emits: "snd (invoke track (example_client None) example_raw) = [example_request track]"
  by (cases track) (simp_all add: example_defs)

lemma example_emits_ro:
  "snd (invoke track (example_client None) (example_raw(''--mode'' \<mapsto> ''ro''))) =
     [(example_request track)\<lparr>attachedDisk := (attachedDisk (example_request track))\<lparr>mode := READ_ONLY\<rparr>\<rparr>]"
  by (cases track) (simp_all add: example_defs)

lemma example_emits_no_force:
  "snd (invoke BETA (example_client None) (example_raw(''--force-attach'' := None))) =
     [(example_request BETA)\<lparr>forceAttach := PyBool False\<rparr>]"
  by (simp add: example_defs)

lemma ParseDiskRef_scope:
  assumes "parse_args (Args track) raw = Inr args"
  shows "\<exists>d. raw ''--disk'' = Some d \<and>
           ParseDiskRef track c args iref =
             ParseDiskResource c (PyStr d) (project iref) (zone iref)
               (if track \<in> {BETA, ALPHA} \<and> raw ''--disk-scope'' = Some ''regional''
                then REGION else ZONE)"
  using lookup_disk [OF assms] lookup_disk_scope [OF assms]
  by (cases track)
    (auto simp add: AttachDisk_ParseDiskRef_def AttachDiskBeta_ParseDiskRef_def
       getattr_def ebind_def split: option.splits)

section \<open>Release-track gating of the request fields\<close>

text \<open>
  C1. On every track and for every command line, a request that is handed to the
  transport carries \<open>forceAttach\<close> if and only if the track is BETA or ALPHA; under GA the
  field stays unset whatever the caller typed.
\<close>

theorem forceAttach_iff_track:
  assumes "req \<in> set (snd (invoke track c raw))"
  shows "(forceAttach req \<noteq> PyNone) = (track \<in> {BETA, ALPHA})"
proof -
  from invoke_Run [OF assms] obtain args where
    p: "parse_args (Args track) raw = Inr args" and r: "req \<in> set (snd (Run track c args))"
    by blast
  from Run_forceAttach [OF r] lookup_force_attach [OF p] show ?thesis
    by (cases track) simp_all
qed

theorem forceAttach_iff_track_witness:
  "example_request GA \<in> set (snd (invoke GA (example_client None) example_raw)) \<and>
   example_raw ''--force-attach'' \<noteq> None \<and>
   forceAttach (example_request GA) = PyNone \<and>
   example_request BETA \<in> set (snd (invoke BETA (example_client None) example_raw)) \<and>
   forceAttach (example_request BETA) \<noteq> PyNone"
proof -
  have g: "example_request GA \<in> set (snd (invoke GA (example_client None) example_raw))"
    and b: "example_request BETA \<in> set (snd (invoke BETA (example_client None) example_raw))"
    by (simp_all add: example_emits)
  have "example_raw ''--force-attach'' \<noteq> None"
    by (simp add: example_raw_def)
  with g b forceAttach_iff_track [OF g] forceAttach_iff_track [OF b] show ?thesis
    by simp
qed

text \<open>
  C10. Under BETA and ALPHA the request always carries \<open>forceAttach\<close>: it is \<open>False\<close>,
  the flag's default, when the caller did not pass \<^verbatim>\<open>--force-attach\<close>, and \<open>True\<close> when
  the caller passed it. The field is never left unset there.
\<close>

theorem forceAttach_default_False:
  assumes "req \<in> set (snd (invoke track c raw))" and "track \<in> {BETA, ALPHA}"
  shows "forceAttach req \<noteq> PyNone \<and>
         forceAttach req = PyBool (raw ''--force-attach'' \<noteq> None)"
proof -
  from invoke_Run [OF assms(1)] obtain args where
    p: "parse_args (Args track) raw = Inr args" and r: "req \<in> set (snd (Run track c args))"
    by blast
  from Run_forceAttach [OF r] lookup_force_attach [OF p] assms(2) show ?thesis
    by (cases track) simp_all
qed

theorem forceAttach_default_False_witness:
  "(example_request BETA)\<lparr>forceAttach := PyBool False\<rparr>
     \<in> set (snd (invoke BETA (example_client None) (example_raw(''--force-attach'' := None)))) \<and>
   BETA \<in> {BETA, ALPHA} \<and>
   (example_raw(''--force-attach'' := None)) ''--force-attach'' = None \<and>
   forceAttach ((example_request BETA)\<lparr>forceAttach := PyBool False\<rparr>) = PyBool False"
proof -
  have b: "(example_request BETA)\<lparr>forceAttach := PyBool False\<rparr>
     \<in> set (snd (invoke BETA (example_client None) (example_raw(''--force-attach'' := None))))"
    by (simp add: example_emits_no_force)
  have t: "BETA \<in> {BETA, ALPHA}" by simp
  from b forceAttach_default_False [OF b t] show ?thesis
    by simp
qed

text \<open>
  C2. On a track other than ALPHA the request's \<open>boot\<close> field stays unset, whatever the
  caller typed. Under ALPHA it is set if and only if the caller passed \<^verbatim>\<open>--boot\<close>, and
  then it is \<open>True\<close>.
\<close>

theorem boot_only_alpha:
  assumes "req \<in> set (snd (invoke track c raw))"
  shows "(track \<noteq> ALPHA \<longrightarrow> boot (attachedDisk req) = PyNone) \<and>
         (track = ALPHA \<longrightarrow>
            (boot (attachedDisk req) \<noteq> PyNone) = (raw ''--boot'' \<noteq> None) \<and>
            (raw ''--boot'' \<noteq> None \<longrightarrow> boot (attachedDisk req) = PyBool True))"
proof -
  from invoke_Run [OF assms] obtain args where
    p: "parse_args (Args track) raw = Inr args" and r: "req \<in> set (snd (Run track c args))"
    by blast
  from Run_boot [OF r] lookup_boot [OF p] show ?thesis
    by (cases track) simp_all
qed

theorem boot_only_alpha_witness:
  "example_request BETA \<in> set (snd (invoke BETA (example_client None) example_raw)) \<and>
   example_raw ''--boot'' \<noteq> None \<and>
   boot (attachedDisk (example_request BETA)) = PyNone \<and>
   example_request ALPHA \<in> set (snd (invoke ALPHA (example_client None) example_raw)) \<and>
   boot (attachedDisk (example_request ALPHA)) = PyBool True"
proof -
  have b: "example_request BETA \<in> set (snd (invoke BETA (example_client None) example_raw))"
    and a: "example_request ALPHA \<in> set (snd (invoke ALPHA (example_client None) example_raw))"
    by (simp_all add: example_emits)
  have "example_raw ''--boot'' \<noteq> None"
    by (simp add: example_raw_def)
  with a b boot_only_alpha [OF a] boot_only_alpha [OF b] show ?thesis
    by simp
qed

section \<open>Resolution of the disk reference\<close>



section \<open>The mode of the attachment\<close>

text \<open>
  C5. On every track, a request that is handed to the transport has its mode set: it is
  \<open>READ_ONLY\<close> when the caller passed \<^verbatim>\<open>--mode ro\<close> and \<open>READ_WRITE\<close> when the caller
  passed \<^verbatim>\<open>--mode rw\<close> or no mode; no other mode value reaches a request.
\<close>

theorem mode_mapping:
  assumes "req \<in> set (snd (invoke track c raw))"
  shows "(raw ''--mode'' = Some ''ro'' \<longrightarrow> mode (attachedDisk req) = READ_ONLY) \<and>
         (raw ''--mode'' = Some ''rw'' \<or> raw ''--mode'' = None \<longrightarrow>
            mode (attachedDisk req) = READ_WRITE) \<and>
         raw ''--mode'' \<in> {Some ''ro'', Some ''rw'', None}"
proof -
  from invoke_Run [OF assms] obtain args where
    p: "parse_args (Args track) raw = Inr args" and r: "req \<in> set (snd (Run track c args))"
    by blast
  from Run_mode [OF r] lookup_mode [OF p] mode_valid [OF p] show ?thesis
    by (cases "raw ''--mode''") auto
qed

theorem mode_mapping_witness:
  "example_request GA \<in> set (snd (invoke GA (example_client None) example_raw)) \<and>
   example_raw ''--mode'' = None \<and>
   mode (attachedDisk (example_request GA)) = READ_WRITE \<and>
   (example_request BETA)\<lparr>attachedDisk :=
       (attachedDisk (example_request BETA))\<lparr>mode := READ_ONLY\<rparr>\<rparr>
     \<in> set (snd (invoke BETA (example_client None) (example_raw(''--mode'' \<mapsto> ''ro'')))) \<and>
   mode (attachedDisk ((example_request BETA)\<lparr>attachedDisk :=
     (attachedDisk (example_request BETA))\<lparr>mode := READ_ONLY\<rparr>\<rparr>)) = READ_ONLY"
proof -
  have g: "example_request GA \<in> set (snd (invoke GA (example_client None) example_raw))"
    by (simp add: example_emits)
  have b: "(example_request BETA)\<lparr>attachedDisk :=
       (attachedDisk (example_request BETA))\<lparr>mode := READ_ONLY\<rparr>\<rparr>
     \<in> set (snd (invoke BETA (example_client None) (example_raw(''--mode'' \<mapsto> ''ro''))))"
    by (simp add: example_emits_ro)
  have "example_raw ''--mode'' = None"
    by (simp add: example_raw_def)
  with g b mode_mapping [OF g] mode_mapping [OF b] show ?thesis
    by simp
qed

section \<open>Errors\<close>

lemma ParseDiskRef_errors:
  assumes "parse_args (Args track) raw = Inr args"
    and "ParseDiskRef track c args iref = Inl e"
  shows "\<exists>d p z s. ParseDiskResource c d p z s = Inl e"
proof -
  from ParseDiskRef_scope [OF assms(1), of c iref] assms(2) show ?thesis
    by metis
qed

lemma example_client_errors:
  "ResolveAsResource (example_client supplied) args = Inl e \<Longrightarrow> e = ResourceResolutionError"
  "ParseDiskResource (example_client supplied) d p z s = Inl e \<Longrightarrow> e = ResourceResolutionError"
  "FromArgs (example_client supplied) args b = Inl e \<Longrightarrow> e = UnsupportedKeyType"
  "MaybeLookupKeyMessage (example_client supplied) keys dref = Inl e \<Longrightarrow> e = UnsupportedKeyType"
  "MakeRequests (example_client supplied) rs = Inl e \<Longrightarrow> e = TransportError"
  by (auto simp add: example_client_def csek_utils_FromArgs_def
        csek_utils_MaybeLookupKeyMessage_def
        split: option.splits pyval.splits if_splits)

lemma example_rsa_GA:
  "invoke GA (example_client (Some example_rsa_store)) example_raw = (Inl UnsupportedKeyType, [])"
  by (simp add: example_defs example_rsa_store_def example_disk_def)

text \<open>
  C8. When the resolvers raise only \<open>ResourceResolutionError\<close>, the key store only
  \<open>UnsupportedKeyType\<close> and the transport only \<open>TransportError\<close>, an invocation that ends
  in an error either ends in one of \<open>MissingRequiredOption\<close>, \<open>InvalidEnumValue\<close>,
  \<open>ResourceResolutionError\<close> and \<open>UnsupportedKeyType\<close>, and then no request was handed to
  the transport, or it ends in the transport's own error after the request was handed
  over. The command itself adds no error: it never reads a flag that its track does not
  declare. And no error is recovered from: a request is handed over only when the
  collector, both resolvers and both key-store calls returned.
\<close>

theorem errors_terminal:
  assumes "\<And>args e. ResolveAsResource c args = Inl e \<Longrightarrow> e = ResourceResolutionError"
    and "\<And>d p z s e. ParseDiskResource c d p z s = Inl e \<Longrightarrow> e = ResourceResolutionError"
    and "\<And>args b e. FromArgs c args b = Inl e \<Longrightarrow> e = UnsupportedKeyType"
    and "\<And>keys dref e. MaybeLookupKeyMessage c keys dref = Inl e \<Longrightarrow> e = UnsupportedKeyType"
    and "\<And>rs e. MakeRequests c rs = Inl e \<Longrightarrow> e = TransportError"
  shows "(\<forall>e. fst (invoke track c raw) = Inl e \<longrightarrow>
            (e \<in> {MissingRequiredOption, InvalidEnumValue, ResourceResolutionError,
                   UnsupportedKeyType} \<and> snd (invoke track c raw) = []) \<or>
            (e = TransportError \<and> snd (invoke track c raw) \<noteq> [])) \<and>
         (snd (invoke track c raw) \<noteq> [] \<longrightarrow>
            (\<exists>args iref dref keys key.
               parse_args (Args track) raw = Inr args \<and>
               ResolveAsResource c args = Inr iref \<and>
               ParseDiskRef track c args iref = Inr dref \<and>
               FromArgs c args (track \<in> {ALPHA, BETA}) = Inr keys \<and>
               MaybeLookupKeyMessage c keys dref = Inr key))"
proof (intro conjI allI impI)
  assume "snd (invoke track c raw) \<noteq> []"
  then obtain req where "req \<in> set (snd (invoke track c raw))"
    by (cases "snd (invoke track c raw)") auto
  from invoke_Run [OF this] obtain args where
    p: "parse_args (Args track) raw = Inr args" and r: "req \<in> set (snd (Run track c args))"
    by blast
  from Run_disk [OF r] obtain iref dref keys where
    a: "ResolveAsResource c args = Inr iref" "ParseDiskRef track c args iref = Inr dref"
      "MaybeLookupKeyMessage c keys dref = Inr (diskEncryptionKey (attachedDisk req))"
    and k: "FromArgs c args (track \<noteq> GA) = Inr keys"
    by blast
  have "(track \<noteq> GA) = (track \<in> {ALPHA, BETA})"
    by (cases track) simp_all
  with k have "FromArgs c args (track \<in> {ALPHA, BETA}) = Inr keys"
    by simp
  with p a
  show "\<exists>args iref dref keys key.
               parse_args (Args track) raw = Inr args \<and>
               ResolveAsResource c args = Inr iref \<and>
               ParseDiskRef track c args iref = Inr dref \<and>
               FromArgs c args (track \<in> {ALPHA, BETA}) = Inr keys \<and>
               MaybeLookupKeyMessage c keys dref = Inr key"
    by blast
next
  fix e
  assume out: "fst (invoke track c raw) = Inl e"
  show "(e \<in> {MissingRequiredOption, InvalidEnumValue, ResourceResolutionError,
                UnsupportedKeyType} \<and> snd (invoke track c raw) = []) \<or>
         (e = TransportError \<and> snd (invoke track c raw) \<noteq> [])"
  proof (cases "parse_args (Args track) raw")
    case (Inl e')
    with out parse_args_Inl [OF Inl] show ?thesis
      by (auto simp add: invoke_def)
  next
    case (Inr args)
    have inv: "invoke track c raw = Run track c args"
      using Inr by (simp add: invoke_def)
    note la = lookup_mode [OF Inr] lookup_device_name [OF Inr] lookup_boot [OF Inr]
      lookup_force_attach [OF Inr]
    have pd: "ParseDiskRef track c args iref = Inl e' \<Longrightarrow> e' = ResourceResolutionError"
      for iref e'
      using ParseDiskRef_errors [OF Inr] assms(2) by blast
    have pd_GA: "AttachDisk_ParseDiskRef c args iref = Inl e' \<Longrightarrow> track = GA \<Longrightarrow>
        e' = ResourceResolutionError" for iref e'
      using pd [of iref e'] by simp
    have pd_Beta: "AttachDiskBeta_ParseDiskRef c args iref = Inl e' \<Longrightarrow> track \<noteq> GA \<Longrightarrow>
        e' = ResourceResolutionError" for iref e'
      using pd [of iref e'] by (cases track) simp_all
    from out show ?thesis
      unfolding inv Run_def
      by (cases track)
         (auto simp add: ebind_def getattr_def la Let_def
            split: sum.splits if_splits
            dest: assms(1) assms(3) assms(4) assms(5) pd_GA pd_Beta)
  qed
qed

theorem errors_terminal_witness:
  "fst (invoke GA (example_client (Some example_rsa_store)) example_raw) = Inl UnsupportedKeyType \<and>
   snd (invoke GA (example_client (Some example_rsa_store)) example_raw) = []"
proof -
  have f: "fst (invoke GA (example_client (Some example_rsa_store)) example_raw) =
      Inl UnsupportedKeyType"
    by (simp add: example_rsa_GA)
  from errors_terminal [of "example_client (Some example_rsa_store)" GA example_raw,
      OF example_client_errors] f
  show ?thesis
    by auto
qed

text \<open>
  C9. The option collector, on the arguments that any of the three tracks declares,
  rejects a command line without \<^verbatim>\<open>--disk\<close> with \<open>MissingRequiredOption\<close>; with a disk, it
  rejects a \<^verbatim>\<open>--mode\<close> value other than \<^verbatim>\<open>ro\<close> and \<^verbatim>\<open>rw\<close> with \<open>InvalidEnumValue\<close>; and
  with a disk and no mode (and no disk scope) it accepts the command line and the mode
  is the default \<^verbatim>\<open>rw\<close>.
\<close>

theorem collector_validates:
  "(raw ''--disk'' = None \<longrightarrow> parse_args (Args track) raw = Inl MissingRequiredOption) \<and>
   (\<forall>d m. raw ''--disk'' = Some d \<and> raw ''--mode'' = Some m \<and> m \<noteq> ''ro'' \<and> m \<noteq> ''rw'' \<longrightarrow>
      parse_args (Args track) raw = Inl InvalidEnumValue) \<and>
   (\<forall>d. raw ''--disk'' = Some d \<and> raw ''--mode'' = None \<and> raw ''--disk-scope'' = None \<longrightarrow>
      (\<exists>args. parse_args (Args track) raw = Inr args \<and> args ''mode'' = Some (PyStr ''rw'')))"
proof (intro conjI allI impI)
  assume "raw ''--disk'' = None"
  then show "parse_args (Args track) raw = Inl MissingRequiredOption"
    by (cases track) (simp_all add: Args_unfold parse_one_schema ebind_def)
next
  fix d m
  assume "raw ''--disk'' = Some d \<and> raw ''--mode'' = Some m \<and> m \<noteq> ''ro'' \<and> m \<noteq> ''rw''"
  then show "parse_args (Args track) raw = Inl InvalidEnumValue"
    by (cases track) (simp_all add: Args_unfold parse_one_schema ebind_def)
next
  fix d
  assume a: "raw ''--disk'' = Some d \<and> raw ''--mode'' = None \<and> raw ''--disk-scope'' = None"
  then have "\<exists>args. parse_args (Args track) raw = Inr args"
    by (cases track) (simp_all add: Args_unfold parse_one_schema ebind_def)
  then obtain args where p: "parse_args (Args track) raw = Inr args" ..
  from lookup_mode [OF p] a have "args ''mode'' = Some (PyStr ''rw'')" by simp
  with p show "\<exists>args. parse_args (Args track) raw = Inr args \<and> args ''mode'' = Some (PyStr ''rw'')"
    by blast
qed

theorem collector_validates_witness:
  "(example_raw(''--disk'' := None)) ''--disk'' = None \<and>
   parse_args (Args GA) (example_raw(''--disk'' := None)) = Inl MissingRequiredOption \<and>
   parse_args (Args BETA) (example_raw(''--mode'' \<mapsto> ''rx'')) = Inl InvalidEnumValue \<and>
   (\<exists>args. parse_args (Args ALPHA) example_raw = Inr args \<and> args ''mode'' = Some (PyStr ''rw''))"
proof -
  have 1: "(example_raw(''--disk'' := None)) ''--disk'' = None"
    by simp
  have 2: "(example_raw(''--mode'' \<mapsto> ''rx'')) ''--disk'' = Some ''DISK'' \<and>
     (example_raw(''--mode'' \<mapsto> ''rx'')) ''--mode'' = Some ''rx'' \<and> ''rx'' \<noteq> ''ro'' \<and> ''rx'' \<noteq> ''rw''"
    by (simp add: example_raw_def)
  have 3: "example_raw ''--disk'' = Some ''DISK'' \<and> example_raw ''--mode'' = None \<and>
     example_raw ''--disk-scope'' = None"
    by (simp add: example_raw_def)
  from collector_validates [of "example_raw(''--disk'' := None)" GA]
    collector_validates [of "example_raw(''--mode'' \<mapsto> ''rx'')" BETA]
    collector_validates [of example_raw ALPHA] 1 2 3
  show ?thesis by blast
qed

section \<open>Encryption keys\<close>

lemma rsa_in_store:
  "map_of ks u = Some (RsaEncryptedKey m) \<Longrightarrow> list_ex is_rsa (map snd ks)"
  by (induction ks) (auto split: if_splits)

lemma example_resolved:
  "ResolveAsResource (example_client supplied) (parsed track example_raw) = Inr example_instance"
  by (simp add: example_client_def example_parsed_instance example_instance_def)

lemma example_disk_resolved:
  "ParseDiskRef track (example_client supplied) (parsed track example_raw) example_instance =
     Inr \<lparr>SelfLink = example_disk\<rparr>"
  using ParseDiskRef_scope [OF example_parsed(1), of track "example_client supplied" example_instance]
  by (cases track) (auto simp add: example_raw_def example_client_def example_instance_def example_disk_def)

text \<open>
  C4. With the key store of the specification, let the caller supply an RSA-wrapped key
  for the disk that the command resolves. Under GA the invocation fails with
  \<open>UnsupportedKeyType\<close> and no request is handed to the transport; under BETA and ALPHA
  the same input hands over one request whose \<open>diskEncryptionKey\<close> is that key.
\<close>

theorem rsa_key_by_track:
  assumes "FromArgs c = csek_utils_FromArgs (Some ks)"
    and "MaybeLookupKeyMessage c = csek_utils_MaybeLookupKeyMessage"
    and "parse_args (Args track) raw = Inr args"
    and "ResolveAsResource c args = Inr iref"
    and "ParseDiskRef track c args iref = Inr dref"
    and "map_of ks (SelfLink dref) = Some (RsaEncryptedKey m)"
  shows "(track = GA \<longrightarrow> invoke track c raw = (Inl UnsupportedKeyType, [])) \<and>
         (track \<in> {BETA, ALPHA} \<longrightarrow>
            (\<exists>req. invoke track c raw = (MakeRequests c [req], [req]) \<and>
               diskEncryptionKey (attachedDisk req) = Some (RsaEncryptedKey m)))"
proof -
  note la = lookup_mode [OF assms(3)] lookup_device_name [OF assms(3)] lookup_boot [OF assms(3)]
    lookup_force_attach [OF assms(3)]
  have inv: "invoke track c raw = Run track c args"
    using assms(3) by (simp add: invoke_def)
  have pd: "track = GA \<Longrightarrow> AttachDisk_ParseDiskRef c args iref = Inr dref"
    "track \<noteq> GA \<Longrightarrow> AttachDiskBeta_ParseDiskRef c args iref = Inr dref"
    using assms(5) by (cases track; simp)+
  show ?thesis
    unfolding inv Run_def assms(1,2,4)
    using rsa_in_store [OF assms(6)] assms(6)
    by (cases track)
      (simp_all add: ebind_def getattr_def la pd Let_def csek_utils_FromArgs_def
         csek_utils_MaybeLookupKeyMessage_def)
qed

theorem rsa_key_by_track_witness:
  "invoke GA (example_client (Some example_rsa_store)) example_raw = (Inl UnsupportedKeyType, []) \<and>
   (\<exists>req. invoke BETA (example_client (Some example_rsa_store)) example_raw =
            (Inr [''done''], [req]) \<and>
      diskEncryptionKey (attachedDisk req) = Some (RsaEncryptedKey ''wrapped-key''))"
proof -
  have f: "FromArgs (example_client (Some example_rsa_store)) = csek_utils_FromArgs (Some example_rsa_store)"
    and l: "MaybeLookupKeyMessage (example_client (Some example_rsa_store)) = csek_utils_MaybeLookupKeyMessage"
    by (simp_all add: example_client_def)
  have k: "map_of example_rsa_store (SelfLink \<lparr>SelfLink = example_disk\<rparr>) = Some (RsaEncryptedKey ''wrapped-key'')"
    by (simp add: example_rsa_store_def)
  from rsa_key_by_track [OF f l example_parsed(1) example_resolved example_disk_resolved k, of GA]
    rsa_key_by_track [OF f l example_parsed(1) example_resolved example_disk_resolved k, of BETA]
  show ?thesis by (simp add: example_client_def)
qed

lemma example_emits_key:
  "snd (invoke GA (example_client (Some example_raw_store)) example_raw) =
     [(example_request GA)\<lparr>attachedDisk :=
        (attachedDisk (example_request GA))\<lparr>diskEncryptionKey := Some (RawKey ''key'')\<rparr>\<rparr>]"
  by (simp add: example_defs example_raw_store_def example_disk_def)

text \<open>
  C6. With the key store of the specification, on every track, the \<open>diskEncryptionKey\<close>
  of a request handed to the transport is a key only if the caller supplied that key
  for the disk the request names as its source; when the caller supplied no key for
  that disk the field is unset.
\<close>

theorem encryptionKey_only_if_supplied:
  assumes "FromArgs c = csek_utils_FromArgs supplied"
    and "MaybeLookupKeyMessage c = csek_utils_MaybeLookupKeyMessage"
    and "req \<in> set (snd (invoke track c raw))"
  shows "(\<forall>k. diskEncryptionKey (attachedDisk req) = Some k \<longrightarrow>
            (\<exists>ks. supplied = Some ks \<and> (source (attachedDisk req), k) \<in> set ks)) \<and>
         ((\<forall>ks k. supplied = Some ks \<longrightarrow> (source (attachedDisk req), k) \<notin> set ks) \<longrightarrow>
            diskEncryptionKey (attachedDisk req) = None)"
proof -
  from invoke_Run [OF assms(3)] obtain args where
    r: "req \<in> set (snd (Run track c args))"
    by blast
  from Run_disk [OF r] obtain iref dref keys where
    f: "FromArgs c args (track \<noteq> GA) = Inr keys"
    and l: "MaybeLookupKeyMessage c keys dref = Inr (diskEncryptionKey (attachedDisk req))"
    and s: "source (attachedDisk req) = SelfLink dref"
    by blast
  from f have keys: "keys = supplied"
    by (simp add: assms(1) csek_utils_FromArgs_def split: option.splits if_splits)
  have 1: "\<exists>ks. supplied = Some ks \<and> (source (attachedDisk req), k) \<in> set ks"
    if "diskEncryptionKey (attachedDisk req) = Some k" for k
    using l that keys s
    by (auto simp add: assms(2) csek_utils_MaybeLookupKeyMessage_def
          split: option.splits dest: map_of_SomeD)
  then show ?thesis
    by (cases "diskEncryptionKey (attachedDisk req)") auto
qed

theorem encryptionKey_only_if_supplied_witness:
  "(example_request GA)\<lparr>attachedDisk :=
        (attachedDisk (example_request GA))\<lparr>diskEncryptionKey := Some (RawKey ''key'')\<rparr>\<rparr>
     \<in> set (snd (invoke GA (example_client (Some example_raw_store)) example_raw)) \<and>
   (example_disk, RawKey ''key'') \<in> set example_raw_store \<and>
   example_request GA \<in> set (snd (invoke GA (example_client None) example_raw)) \<and>
   diskEncryptionKey (attachedDisk (example_request GA)) = None"
proof -
  have f: "FromArgs (example_client supplied) = csek_utils_FromArgs supplied"
    and l: "MaybeLookupKeyMessage (example_client supplied) = csek_utils_MaybeLookupKeyMessage"
    for supplied
    by (simp_all add: example_client_def)
  have r: "(example_request GA)\<lparr>attachedDisk :=
        (attachedDisk (example_request GA))\<lparr>diskEncryptionKey := Some (RawKey ''key'')\<rparr>\<rparr>
     \<in> set (snd (invoke GA (example_client (Some example_raw_store)) example_raw))"
    by (simp add: example_emits_key)
  have n: "example_request GA \<in> set (snd (invoke GA (example_client None) example_raw))"
    by (simp add: example_emits)
  from encryptionKey_only_if_supplied [OF f l r] encryptionKey_only_if_supplied [OF f l n] r n
  show ?thesis
    by (simp add: example_request_def example_disk_def)
qed

end
